theory Spec2Isabelle
  imports Main "HOL-Library.Sublist"
begin

section \<open>The PDF merger: \<^verbatim>\<open>merge_pdfs\<close> of \<^verbatim>\<open>src/pdf_merger.py\<close>\<close>

text \<open>
  \<^verbatim>\<open>merge_pdfs(input_paths, output_path)\<close> validates its argument, checks that every
  input path is an existing regular file, reads every input with PyPDF2, appends all pages
  to one writer and writes the writer to \<^verbatim>\<open>output_path\<close>. The function is a
  thin wrapper around the operating system and the PyPDF2 library, so the embedding has
  three parts:
  \<^item> the Python values the function can be called with (\<open>pyval\<close>), the exceptions it
    raises (\<open>exn\<close>) and the lines it prints (\<open>event\<close>);
  \<^item> the world it acts on: the file system as a map from paths to nodes, and standard
    output (\<open>world\<close>);
  \<^item> what the operating system and PyPDF2 answer during the call (\<open>env\<close>): the result of
    parsing a file's bytes, the serialisation of a page list, and the requests the
    operating system refuses.
  The function itself is translated statement by statement.
\<close>

subsection \<open>Values, exceptions, printed lines\<close>

type_synonym path = string
type_synonym bytes = string

text \<open>The values \<^verbatim>\<open>input_paths\<close> may be bound to at run time (the annotation
  \<^verbatim>\<open>list[str]\<close> is not enforced by Python; lines 23 to 27 check it).\<close>

datatype pyval =
    PyNone
  | PyBool bool
  | PyInt int
  | PyStr string
  | PyList "pyval list"
  | PyTuple "pyval list"

text \<open>The exception classes the function tells apart, each with its message.
  \<^verbatim>\<open>IOError\<close> is Python 3's \<^verbatim>\<open>OSError\<close>, with its subclasses other than
  \<^verbatim>\<open>FileNotFoundError\<close>; \<open>Exception\<close> stands for every other class.\<close>

datatype exn =
    ValueError string
  | FileNotFoundError string
  | PdfReadError string
  | IOError string
  | Exception string

text \<open>\<^verbatim>\<open>str(e)\<close>, as the f-strings use it.\<close>

fun str :: "exn \<Rightarrow> string" where
  "str (ValueError m) = m"
| "str (FileNotFoundError m) = m"
| "str (PdfReadError m) = m"
| "str (IOError m) = m"
| "str (Exception m) = m"

text \<open>One constructor for each \<^verbatim>\<open>print\<close> statement of \<^verbatim>\<open>merge_pdfs\<close>, with the
  values the printed line is formatted from.\<close>

datatype event =
    Starting                       \<comment> \<open>line 42\<close>
  | InputFiles "path list"         \<comment> \<open>line 43\<close>
  | OutputFile path                \<comment> \<open>line 44\<close>
  | Processing nat nat string      \<comment> \<open>line 48: \<^verbatim>\<open>i + 1\<close>, \<^verbatim>\<open>len(input_paths)\<close>, the base name\<close>
  | WarnEmpty string               \<comment> \<open>line 56: the warning for an input without pages\<close>
  | NoPagesAdded                   \<comment> \<open>line 75\<close>
  | CreatedDir path                \<comment> \<open>line 86\<close>
  | Success nat path               \<comment> \<open>line 94\<close>
  | MergeFailed exn                \<comment> \<open>line 98\<close>
  | Unexpected exn                 \<comment> \<open>line 102\<close>

subsection \<open>The world and the environment\<close>

text \<open>A path is the string the program passes to the operating system: two spellings of
  one location are two keys of the map.\<close>

datatype node = File bytes | Dir

record world =
  fs :: "path \<rightharpoonup> node"
  stdout :: "event list"

text \<open>
  The answers of PyPDF2 and of the operating system, for pages of any type \<open>'p\<close>
  (\<^verbatim>\<open>merge_pdfs\<close> never looks inside a page):
  \<^item> \<open>PdfReader env b\<close>: the pages \<^verbatim>\<open>PyPDF2.PdfReader\<close> finds in the bytes \<open>b\<close>, or the
    exception that constructing the reader or reading its pages raises;
  \<^item> \<open>PdfWriter_write env ps\<close>: the bytes \<^verbatim>\<open>PdfWriter.write\<close> emits for the pages \<open>ps\<close>;
  \<^item> \<open>open_rb_fault env p\<close>: the exception of \<^verbatim>\<open>open(p, 'rb')\<close> on an existing regular
    file (permission denied, say), if any;
  \<^item> \<open>makedirs env f d\<close>: what \<^verbatim>\<open>os.makedirs(d)\<close> does on the file system \<open>f\<close>: the
    exception it raises, if any, of whatever class (an \<^verbatim>\<open>OSError\<close> when a component cannot
    be created, a \<^verbatim>\<open>ValueError\<close> for a path with a NUL byte), and the file system it leaves,
    with every directory it has created, also when it fails on a later one;
  \<^item> \<open>open_wb_fault env p\<close>: the exception of \<^verbatim>\<open>open(p, 'wb')\<close>, if any (the path is a
    directory, its parent is missing, permission denied);
  \<^item> \<open>write_fault env p\<close>: \<open>Some (k, e)\<close> when writing to \<open>p\<close> raises \<open>e\<close> after \<open>k\<close> bytes
    have reached the file (the disk is full, say).
\<close>

record 'p env =
  PdfReader :: "bytes \<Rightarrow> exn + 'p list"
  PdfWriter_write :: "'p list \<Rightarrow> bytes"
  open_rb_fault :: "path \<Rightarrow> exn option"
  makedirs :: "(path \<rightharpoonup> node) \<Rightarrow> path \<Rightarrow> exn option \<times> (path \<rightharpoonup> node)"
  open_wb_fault :: "path \<Rightarrow> exn option"
  write_fault :: "path \<Rightarrow> (nat \<times> exn) option"

subsection \<open>\<^verbatim>\<open>os.path\<close>\<close>

text \<open>\<^verbatim>\<open>os.path.basename\<close> and \<^verbatim>\<open>os.path.dirname\<close> as \<^verbatim>\<open>posixpath\<close> computes them:
  the part after the last slash, and the part before it without its trailing slashes
  (unless it consists of slashes only).\<close>

definition basename :: "path \<Rightarrow> string" where
  "basename p = rev (takeWhile (\<lambda>c. c \<noteq> CHR ''/'') (rev p))"

definition dirname :: "path \<Rightarrow> path" where
  "dirname p =
     (let head = rev (dropWhile (\<lambda>c. c \<noteq> CHR ''/'') (rev p)) in
      if head \<noteq> [] \<and> \<not> list_all (\<lambda>c. c = CHR ''/'') head
      then rev (dropWhile (\<lambda>c. c = CHR ''/'') (rev head))
      else head)"

definition exists_path :: "(path \<rightharpoonup> node) \<Rightarrow> path \<Rightarrow> bool" where
  "exists_path f p = (f p \<noteq> None)"

fun is_File :: "node option \<Rightarrow> bool" where
  "is_File (Some (File b)) = True"
| "is_File _ = False"

definition isfile :: "(path \<rightharpoonup> node) \<Rightarrow> path \<Rightarrow> bool" where
  "isfile f p = is_File (f p)"

subsection \<open>Validation of the argument (lines 23 to 27)\<close>

fun is_str :: "pyval \<Rightarrow> bool" where
  "is_str (PyStr s) = True"
| "is_str _ = False"

fun the_str :: "pyval \<Rightarrow> string" where
  "the_str (PyStr s) = s"
| "the_str _ = []"

text \<open>\<open>Inr\<close> the paths when \<^verbatim>\<open>input_paths\<close> is a non-empty list of strings.\<close>

fun validate :: "pyval \<Rightarrow> exn + path list" where
  "validate (PyList xs) =
     (if xs = [] then Inl (ValueError ''input_paths must be a non-empty list of file paths.'')
      else if \<not> list_all is_str xs
      then Inl (ValueError ''All elements in input_paths must be strings (file paths).'')
      else Inr (map the_str xs))"
| "validate v = Inl (ValueError ''input_paths must be a non-empty list of file paths.'')"

subsection \<open>The existence check (lines 30 to 34)\<close>

fun check_exist :: "(path \<rightharpoonup> node) \<Rightarrow> path list \<Rightarrow> exn option" where
  "check_exist f [] = None"
| "check_exist f (p # ps) =
     (if \<not> exists_path f p then Some (FileNotFoundError (''Input file not found: '' @ p))
      else if \<not> isfile f p then Some (FileNotFoundError (''Input path is not a file: '' @ p))
      else check_exist f ps)"

subsection \<open>Reading the inputs (lines 47 to 70)\<close>

definition quoted :: "string \<Rightarrow> string" where
  "quoted s = [CHR 0x27] @ s @ [CHR 0x27]"

text \<open>Lines 51 and 52: open the file and parse it. After the existence check the path
  is a regular file; the other two cases are what \<^verbatim>\<open>open\<close> raises otherwise.\<close>

definition read_input :: "'p env \<Rightarrow> (path \<rightharpoonup> node) \<Rightarrow> path \<Rightarrow> exn + 'p list" where
  "read_input env f p =
     (case f p of
        None \<Rightarrow> Inl (FileNotFoundError (''[Errno 2] No such file or directory: '' @ quoted p))
      | Some Dir \<Rightarrow> Inl (IOError (''[Errno 21] Is a directory: '' @ quoted p))
      | Some (File b) \<Rightarrow>
          (case open_rb_fault env p of
             Some e \<Rightarrow> Inl e
           | None \<Rightarrow> PdfReader env b))"

text \<open>Lines 65 to 70: the two handlers of the inner \<^verbatim>\<open>try\<close>.\<close>

fun reraise :: "path \<Rightarrow> exn \<Rightarrow> exn" where
  "reraise p (PdfReadError m) =
     PdfReadError (''Error reading PDF file '' @ quoted (basename p) @ '': '' @ m)"
| "reraise p e =
     Exception (''An unexpected error occurred while processing '' @ quoted (basename p)
       @ '': '' @ str e)"

text \<open>Lines 60 to 62: \<^verbatim>\<open>for page_num in range(len(pdf_reader.pages))\<close>, adding
  \<^verbatim>\<open>pdf_reader.pages[page_num]\<close> to the writer. The writer is the list of its pages.\<close>

definition add_pages :: "'p list \<Rightarrow> 'p list \<Rightarrow> 'p list" where
  "add_pages pdf_writer pages =
     foldl (\<lambda>wr page_num. wr @ [pages ! page_num]) pdf_writer [0 ..< length pages]"

text \<open>The loop over \<^verbatim>\<open>enumerate(input_paths)\<close>, from index \<open>i\<close>, with \<open>n = len(input_paths)\<close>.
  It returns the exception that leaves the loop or the writer's pages, and what was
  printed.\<close>

fun process_inputs ::
  "'p env \<Rightarrow> (path \<rightharpoonup> node) \<Rightarrow> nat \<Rightarrow> nat \<Rightarrow> path list \<Rightarrow> 'p list \<Rightarrow> event list
     \<Rightarrow> (exn + 'p list) \<times> event list" where
  "process_inputs env f i n [] pdf_writer out = (Inr pdf_writer, out)"
| "process_inputs env f i n (p # ps) pdf_writer out =
     (let out1 = out @ [Processing (i + 1) n (basename p)] in
      case read_input env f p of
        Inl e \<Rightarrow> (Inl (reraise p e), out1)
      | Inr pages \<Rightarrow>
          if length pages = 0
          then process_inputs env f (i + 1) n ps pdf_writer (out1 @ [WarnEmpty (basename p)])
          else process_inputs env f (i + 1) n ps (add_pages pdf_writer pages) out1)"

subsection \<open>Writing the output (lines 74 to 94)\<close>

definition say :: "world \<Rightarrow> event \<Rightarrow> world" where
  "say w e = w\<lparr>stdout := stdout w @ [e]\<rparr>"

text \<open>\<^verbatim>\<open>except OSError\<close> takes \<^verbatim>\<open>OSError\<close> and its subclasses.\<close>

fun is_OSError :: "exn \<Rightarrow> bool" where
  "is_OSError (IOError m) = True"
| "is_OSError (FileNotFoundError m) = True"
| "is_OSError e = False"

text \<open>Lines 87 and 88: an \<^verbatim>\<open>OSError\<close> of \<^verbatim>\<open>os.makedirs\<close> is raised again as an
  \<^verbatim>\<open>IOError\<close> that names the directory; any other exception passes the handler as it
  is.\<close>

definition except_OSError :: "path \<Rightarrow> exn \<Rightarrow> exn" where
  "except_OSError output_dir e =
     (if is_OSError e
      then IOError (''Error creating output directory '' @ output_dir @ '': '' @ str e)
      else e)"

text \<open>Lines 82 to 88: call \<^verbatim>\<open>os.makedirs\<close> on the parent directory when it is named and
  missing. Whether the call succeeds or fails, the file system is the one it leaves.\<close>

definition make_output_dir :: "'p env \<Rightarrow> world \<Rightarrow> path \<Rightarrow> (exn + unit) \<times> world" where
  "make_output_dir env w output_path =
     (let output_dir = dirname output_path in
      if output_dir \<noteq> [] \<and> \<not> exists_path (fs w) output_dir
      then (case makedirs env (fs w) output_dir of
              (Some e, f) \<Rightarrow> (Inl (except_OSError output_dir e), w\<lparr>fs := f\<rparr>)
            | (None, f) \<Rightarrow> (Inr (), say (w\<lparr>fs := f\<rparr>) (CreatedDir output_dir)))
      else (Inr (), w))"

text \<open>Lines 91 and 92: \<^verbatim>\<open>open(output_path, 'wb')\<close> creates or truncates the file at
  the destination itself, then \<^verbatim>\<open>pdf_writer.write\<close> sends the writer's bytes into it.
  When the write raises, the file keeps the bytes that arrived.\<close>

definition write_file :: "'p env \<Rightarrow> world \<Rightarrow> 'p list \<Rightarrow> path \<Rightarrow> (exn + unit) \<times> world" where
  "write_file env w pdf_writer output_path =
     (case open_wb_fault env output_path of
        Some e \<Rightarrow> (Inl e, w)
      | None \<Rightarrow>
          (let w1 = w\<lparr>fs := (fs w)(output_path \<mapsto> File [])\<rparr>;
               data = PdfWriter_write env pdf_writer in
           case write_fault env output_path of
             Some (k, e) \<Rightarrow> (Inl e, w1\<lparr>fs := (fs w1)(output_path \<mapsto> File (take k data))\<rparr>)
           | None \<Rightarrow> (Inr (), w1\<lparr>fs := (fs w1)(output_path \<mapsto> File data)\<rparr>)))"

text \<open>Lines 74 to 94: the notice when the writer has no page (the source prints it and
  goes on: the \<^verbatim>\<open>raise\<close> after it is commented out), the parent directory, the file,
  the closing line.\<close>

definition write_output ::
  "'p env \<Rightarrow> world \<Rightarrow> 'p list \<Rightarrow> nat \<Rightarrow> path \<Rightarrow> (exn + unit) \<times> world" where
  "write_output env w pdf_writer n output_path =
     (let w1 = (if length pdf_writer = 0 then say w NoPagesAdded else w) in
      case make_output_dir env w1 output_path of
        (Inl e, w2) \<Rightarrow> (Inl e, w2)
      | (Inr u, w2) \<Rightarrow>
          (case write_file env w2 pdf_writer output_path of
             (Inl e, w3) \<Rightarrow> (Inl e, w3)
           | (Inr u, w3) \<Rightarrow> (Inr (), say w3 (Success n output_path))))"

subsection \<open>The outer \<^verbatim>\<open>try\<close> (lines 46 to 94) and its handlers (lines 96 to 103)\<close>

definition try_body ::
  "'p env \<Rightarrow> world \<Rightarrow> path list \<Rightarrow> path \<Rightarrow> (exn + unit) \<times> world" where
  "try_body env w input_paths output_path =
     (case process_inputs env (fs w) 0 (length input_paths) input_paths [] (stdout w) of
        (Inl e, out) \<Rightarrow> (Inl e, w\<lparr>stdout := out\<rparr>)
      | (Inr pdf_writer, out) \<Rightarrow>
          write_output env (w\<lparr>stdout := out\<rparr>) pdf_writer (length input_paths) output_path)"

text \<open>The first handler takes \<^verbatim>\<open>ValueError\<close>, \<^verbatim>\<open>FileNotFoundError\<close>, \<^verbatim>\<open>PdfReadError\<close>
  and \<^verbatim>\<open>IOError\<close>, the second every other exception; both print and raise it again.\<close>

fun handler :: "exn \<Rightarrow> event" where
  "handler (Exception m) = Unexpected (Exception m)"
| "handler e = MergeFailed e"

fun except_clauses :: "(exn + unit) \<times> world \<Rightarrow> (exn + unit) \<times> world" where
  "except_clauses (Inl e, w) = (Inl e, say w (handler e))"
| "except_clauses (Inr u, w) = (Inr u, w)"

subsection \<open>\<^verbatim>\<open>merge_pdfs\<close>\<close>

text \<open>The result is the exception raised (\<open>Inl\<close>) or the normal return (\<open>Inr ()\<close>), with the
  world the call leaves behind. The two validations stand before the \<^verbatim>\<open>try\<close>: their
  exceptions pass no handler.\<close>

definition merge_pdfs :: "'p env \<Rightarrow> world \<Rightarrow> pyval \<Rightarrow> path \<Rightarrow> (exn + unit) \<times> world" where
  "merge_pdfs env w input_paths output_path =
     (case validate input_paths of
        Inl e \<Rightarrow> (Inl e, w)
      | Inr paths \<Rightarrow>
          (case check_exist (fs w) paths of
             Some e \<Rightarrow> (Inl e, w)
           | None \<Rightarrow>
               except_clauses
                 (try_body env
                    (say (say (say w Starting) (InputFiles paths)) (OutputFile output_path))
                    paths output_path)))"

subsection \<open>Notions the statements use\<close>

text \<open>What the loop prints from index \<open>i\<close> on when every input \<open>p\<close> is read, with the
  pages \<open>pg p\<close>.\<close>

fun read_log :: "nat \<Rightarrow> nat \<Rightarrow> (path \<Rightarrow> 'p list) \<Rightarrow> path list \<Rightarrow> event list" where
  "read_log i n pg [] = []"
| "read_log i n pg (p # ps) =
     Processing (i + 1) n (basename p)
       # (if pg p = [] then [WarnEmpty (basename p)] else []) @ read_log (i + 1) n pg ps"

text \<open>The world when the loop is left normally: the file system as it was, the opening
  lines and the loop's lines printed.\<close>

definition after_reads :: "world \<Rightarrow> path list \<Rightarrow> path \<Rightarrow> (path \<Rightarrow> 'p list) \<Rightarrow> world" where
  "after_reads w ps output_path pg =
     w\<lparr>stdout := stdout w @ [Starting, InputFiles ps, OutputFile output_path]
          @ read_log 0 (length ps) pg ps\<rparr>"

text \<open>Whether \<^verbatim>\<open>os.makedirs\<close> is called for the destination, the exception it raises
  when it is, and the file system after lines 82 to 88.\<close>

definition needs_dir :: "(path \<rightharpoonup> node) \<Rightarrow> path \<Rightarrow> bool" where
  "needs_dir f output_path =
     (dirname output_path \<noteq> [] \<and> \<not> exists_path f (dirname output_path))"

definition dir_fault :: "'p env \<Rightarrow> (path \<rightharpoonup> node) \<Rightarrow> path \<Rightarrow> exn option" where
  "dir_fault env f output_path =
     (if needs_dir f output_path then fst (makedirs env f (dirname output_path)) else None)"

definition with_output_dir :: "'p env \<Rightarrow> (path \<rightharpoonup> node) \<Rightarrow> path \<Rightarrow> (path \<rightharpoonup> node)" where
  "with_output_dir env f output_path =
     (if needs_dir f output_path then snd (makedirs env f (dirname output_path)) else f)"

text \<open>The operating system lets the output be written: no step of lines 82 to 92 is
  refused.\<close>

definition output_ok :: "'p env \<Rightarrow> (path \<rightharpoonup> node) \<Rightarrow> path \<Rightarrow> bool" where
  "output_ok env f output_path =
     (dir_fault env f output_path = None \<and> open_wb_fault env output_path = None
      \<and> write_fault env output_path = None)"

subsection \<open>A small environment and world to run the model on\<close>

text \<open>A toy document format: the header \<^verbatim>\<open>%PDF\<close>, then every page followed by a
  semicolon. Bytes without the header are not a document.\<close>

fun toy_pages :: "string \<Rightarrow> string \<Rightarrow> string list" where
  "toy_pages cur [] = []"
| "toy_pages cur (c # cs) =
     (if c = CHR '';'' then cur # toy_pages [] cs else toy_pages (cur @ [c]) cs)"

definition toy_reader :: "bytes \<Rightarrow> exn + string list" where
  "toy_reader b =
     (if take 4 b = ''%PDF'' then Inr (toy_pages [] (drop 4 b))
      else Inl (PdfReadError ''EOF marker not found''))"

definition toy_writer :: "string list \<Rightarrow> bytes" where
  "toy_writer ps = ''%PDF'' @ concat (map (\<lambda>p. p @ '';'') ps)"

text \<open>A toy \<^verbatim>\<open>os.makedirs\<close>: it creates the missing directories on the way to the one
  asked for, outermost first, and stops at the first one it cannot create, leaving the
  earlier ones. A name with a NUL byte is a \<^verbatim>\<open>ValueError\<close>, a directory below a regular
  file an \<^verbatim>\<open>OSError\<close>.\<close>

fun toy_dirs :: "path \<Rightarrow> path \<Rightarrow> path list" where
  "toy_dirs acc [] = (if acc = [] then [] else [acc])"
| "toy_dirs acc (c # cs) =
     (if c = CHR ''/'' then (if acc = [] then [] else [acc]) @ toy_dirs (acc @ [c]) cs
      else toy_dirs (acc @ [c]) cs)"

definition toy_mkdir :: "(path \<rightharpoonup> node) \<Rightarrow> path \<Rightarrow> exn option" where
  "toy_mkdir f q =
     (if CHR 0x00 \<in> set q then Some (ValueError ''embedded null byte'')
      else if is_File (f (dirname q))
      then Some (IOError (''[Errno 20] Not a directory: '' @ quoted q))
      else None)"

fun toy_mkdirs :: "(path \<rightharpoonup> node) \<Rightarrow> path list \<Rightarrow> exn option \<times> (path \<rightharpoonup> node)" where
  "toy_mkdirs f [] = (None, f)"
| "toy_mkdirs f (q # qs) =
     (if f q \<noteq> None then toy_mkdirs f qs
      else (case toy_mkdir f q of
              Some e \<Rightarrow> (Some e, f)
            | None \<Rightarrow> toy_mkdirs (f(q \<mapsto> Dir)) qs))"

definition toy_makedirs :: "(path \<rightharpoonup> node) \<Rightarrow> path \<Rightarrow> exn option \<times> (path \<rightharpoonup> node)" where
  "toy_makedirs f d = toy_mkdirs f (toy_dirs [] d)"

definition toy_env :: "string env" where
  "toy_env =
     \<lparr>PdfReader = toy_reader, PdfWriter_write = toy_writer,
      open_rb_fault = (\<lambda>p. None), makedirs = toy_makedirs,
      open_wb_fault = (\<lambda>p. None), write_fault = (\<lambda>p. None)\<rparr>"

text \<open>The same library on a disk that is full after three more bytes.\<close>

definition full_disk_env :: "string env" where
  "full_disk_env =
     toy_env\<lparr>write_fault := (\<lambda>p. Some (3, IOError ''[Errno 28] No space left on device''))\<rparr>"

text \<open>The same library in a place where the destination may not be opened for writing.\<close>

definition locked_env :: "string env" where
  "locked_env =
     toy_env\<lparr>open_wb_fault := (\<lambda>p. Some (IOError ''[Errno 13] Permission denied''))\<rparr>"

definition toy_fs :: "path \<rightharpoonup> node" where
  "toy_fs =
     [''a.pdf'' \<mapsto> File ''%PDFa1;a2;'',
      ''b.pdf'' \<mapsto> File ''%PDFb1;'',
      ''empty.pdf'' \<mapsto> File ''%PDF'',
      ''bad.pdf'' \<mapsto> File ''not a document'',
      ''docs'' \<mapsto> Dir,
      ''out.pdf'' \<mapsto> File ''%PDFold1;old2;old3;'']"

text \<open>Two worlds with two inputs of one base name: in the first the one under \<^verbatim>\<open>x\<close> is
  not a document, in the second the one under \<^verbatim>\<open>y\<close>.\<close>

definition twins_x_bad :: world where
  "twins_x_bad =
     \<lparr>fs = [''x'' \<mapsto> Dir, ''y'' \<mapsto> Dir,
            ''x/a.pdf'' \<mapsto> File ''not a document'', ''y/a.pdf'' \<mapsto> File ''%PDFy1;''],
      stdout = []\<rparr>"

definition twins_y_bad :: world where
  "twins_y_bad =
     \<lparr>fs = [''x'' \<mapsto> Dir, ''y'' \<mapsto> Dir,
            ''x/a.pdf'' \<mapsto> File ''%PDFx1;'', ''y/a.pdf'' \<mapsto> File ''not a document''],
      stdout = []\<rparr>"

definition toy_world :: world where
  "toy_world = \<lparr>fs = toy_fs, stdout = []\<rparr>"

section \<open>Properties of the stages\<close>

lemma foldl_add_pages:
  "n \<le> length pages \<Longrightarrow>
   foldl (\<lambda>wr page_num. wr @ [pages ! page_num]) wr [0 ..< n] = wr @ take n pages"
  by (induction n) (simp_all add: take_Suc_conv_app_nth)

lemma add_pages_append: "add_pages wr pages = wr @ pages"
  by (simp add: add_pages_def foldl_add_pages)

lemma read_input_Inr_isfile:
  "read_input env f p = Inr pg \<Longrightarrow> exists_path f p \<and> isfile f p"
  by (auto simp: read_input_def exists_path_def isfile_def split: option.splits node.splits)

lemma isfile_exists: "isfile f p \<Longrightarrow> exists_path f p"
  by (cases "f p") (simp_all add: isfile_def exists_path_def)

lemma check_exist_isfile: "\<forall>p\<in>set ps. isfile f p \<Longrightarrow> check_exist f ps = None"
  by (induction ps) (auto dest: isfile_exists)

lemma check_exist_reads_ok:
  "\<forall>p\<in>set ps. read_input env f p = Inr (pg p) \<Longrightarrow> check_exist f ps = None"
  by (rule check_exist_isfile) (auto dest: read_input_Inr_isfile)

lemma validate_strs: "ps \<noteq> [] \<Longrightarrow> validate (PyList (map PyStr ps)) = Inr ps"
  by (simp add: list_all_iff comp_def)

lemma process_inputs_ok:
  "\<forall>p\<in>set ps. read_input env f p = Inr (pg p) \<Longrightarrow>
   process_inputs env f i n ps wr out
     = (Inr (wr @ concat (map pg ps)), out @ read_log i n pg ps)"
  by (induction ps arbitrary: i wr out) (simp_all add: add_pages_append Let_def)

lemma process_inputs_fail:
  "\<forall>p\<in>set pre. \<exists>pg. read_input env f p = Inr pg \<Longrightarrow> read_input env f p = Inl e \<Longrightarrow>
   fst (process_inputs env f i n (pre @ p # post) wr out) = Inl (reraise p e)"
  by (induction pre arbitrary: i wr out) (auto simp: Let_def)

lemma fs_say [simp]: "fs (say w e) = fs w"
  by (simp add: say_def)

lemma stdout_say [simp]: "stdout (say w e) = stdout w @ [e]"
  by (simp add: say_def)

lemma fs_after_reads [simp]: "fs (after_reads w ps out pg) = fs w"
  by (simp add: after_reads_def)

lemma try_body_reads_ok:
  assumes "\<forall>p\<in>set ps. read_input env (fs w) p = Inr (pg p)"
  shows "try_body env w ps out
    = write_output env (w\<lparr>stdout := stdout w @ read_log 0 (length ps) pg ps\<rparr>)
        (concat (map pg ps)) (length ps) out"
  using process_inputs_ok [OF assms, of 0 "length ps" "[]" "stdout w"]
  by (simp add: try_body_def)

lemma merge_pdfs_reads_ok:
  assumes "ps \<noteq> []" and "\<forall>p\<in>set ps. read_input env (fs w) p = Inr (pg p)"
  shows "merge_pdfs env w (PyList (map PyStr ps)) out
    = except_clauses
        (write_output env (after_reads w ps out pg) (concat (map pg ps)) (length ps) out)"
proof -
  let ?w1 = "say (say (say w Starting) (InputFiles ps)) (OutputFile out)"
  have r: "\<forall>p\<in>set ps. read_input env (fs ?w1) p = Inr (pg p)"
    using assms(2) by simp
  have w: "?w1\<lparr>stdout := stdout ?w1 @ read_log 0 (length ps) pg ps\<rparr> = after_reads w ps out pg"
    by (simp add: after_reads_def say_def)
  show ?thesis
    using try_body_reads_ok [OF r, of out] w
    by (simp add: merge_pdfs_def validate_strs [OF assms(1)] check_exist_reads_ok [OF assms(2)]
        del: validate.simps)
qed

lemma make_output_dir_eq:
  "make_output_dir env w out
     = (case dir_fault env (fs w) out of
          Some e \<Rightarrow>
            (Inl (except_OSError (dirname out) e), w\<lparr>fs := with_output_dir env (fs w) out\<rparr>)
        | None \<Rightarrow>
            (Inr (),
             if needs_dir (fs w) out
             then say (w\<lparr>fs := with_output_dir env (fs w) out\<rparr>) (CreatedDir (dirname out))
             else w))"
proof (cases "needs_dir (fs w) out")
  case True
  obtain r f where m: "makedirs env (fs w) (dirname out) = (r, f)"
    by (cases "makedirs env (fs w) (dirname out)")
  from True have c: "dirname out \<noteq> [] \<and> \<not> exists_path (fs w) (dirname out)"
    by (simp add: needs_dir_def)
  show ?thesis
    by (cases r) (simp_all add: make_output_dir_def dir_fault_def with_output_dir_def True c m)
next
  case False
  then show ?thesis
    by (auto simp: make_output_dir_def dir_fault_def with_output_dir_def needs_dir_def Let_def)
qed

lemma write_output_dir_fault:
  assumes "dir_fault env (fs w) out = Some e"
  shows "write_output env w wr n out
    = (Inl (except_OSError (dirname out) e),
       w\<lparr>fs := with_output_dir env (fs w) out,
         stdout := stdout w @ (if wr = [] then [NoPagesAdded] else [])\<rparr>)"
  using assms by (simp add: write_output_def make_output_dir_eq say_def)

lemma write_output_open_fault:
  assumes "dir_fault env (fs w) out = None" and "open_wb_fault env out = Some e"
  shows "write_output env w wr n out
    = (Inl e,
       w\<lparr>fs := with_output_dir env (fs w) out,
         stdout := stdout w @ (if wr = [] then [NoPagesAdded] else [])
           @ (if needs_dir (fs w) out then [CreatedDir (dirname out)] else [])\<rparr>)"
  using assms
  by (simp add: write_output_def make_output_dir_eq write_file_def with_output_dir_def say_def)

lemma write_output_write_fault:
  assumes "dir_fault env (fs w) out = None" and "open_wb_fault env out = None"
    and "write_fault env out = Some (k, e)"
  shows "write_output env w wr n out
    = (Inl e,
       w\<lparr>fs := (with_output_dir env (fs w) out)
                (out \<mapsto> File (take k (PdfWriter_write env wr))),
         stdout := stdout w @ (if wr = [] then [NoPagesAdded] else [])
           @ (if needs_dir (fs w) out then [CreatedDir (dirname out)] else [])\<rparr>)"
  using assms
  by (simp add: write_output_def make_output_dir_eq write_file_def with_output_dir_def say_def)

lemma write_output_ok:
  assumes "output_ok env (fs w) out"
  shows "write_output env w wr n out
    = (Inr (),
       w\<lparr>fs := (with_output_dir env (fs w) out)(out \<mapsto> File (PdfWriter_write env wr)),
         stdout := stdout w @ (if wr = [] then [NoPagesAdded] else [])
           @ (if needs_dir (fs w) out then [CreatedDir (dirname out)] else [])
           @ [Success n out]\<rparr>)"
  using assms
  by (simp add: write_output_def make_output_dir_eq write_file_def with_output_dir_def say_def
      output_ok_def)

lemma merge_pdfs_ok:
  assumes "ps \<noteq> []" and "\<forall>p\<in>set ps. read_input env (fs w) p = Inr (pg p)"
    and "output_ok env (fs w) out"
  shows "fst (merge_pdfs env w (PyList (map PyStr ps)) out) = Inr ()"
    and "fs (snd (merge_pdfs env w (PyList (map PyStr ps)) out))
      = (with_output_dir env (fs w) out)
          (out \<mapsto> File (PdfWriter_write env (concat (map pg ps))))"
    and "stdout (snd (merge_pdfs env w (PyList (map PyStr ps)) out))
      = stdout w @ [Starting, InputFiles ps, OutputFile out] @ read_log 0 (length ps) pg ps
        @ (if concat (map pg ps) = [] then [NoPagesAdded] else [])
        @ (if needs_dir (fs w) out then [CreatedDir (dirname out)] else [])
        @ [Success (length ps) out]"
proof -
  have ok: "output_ok env (fs (after_reads w ps out pg)) out"
    using assms(3) by simp
  note m = merge_pdfs_reads_ok [OF assms(1,2), of out] write_output_ok [OF ok]
  show "fst (merge_pdfs env w (PyList (map PyStr ps)) out) = Inr ()"
    by (simp only: m except_clauses.simps fst_conv)
  show "fs (snd (merge_pdfs env w (PyList (map PyStr ps)) out))
      = (with_output_dir env (fs w) out)
          (out \<mapsto> File (PdfWriter_write env (concat (map pg ps))))"
    by (simp only: m except_clauses.simps snd_conv) simp
  show "stdout (snd (merge_pdfs env w (PyList (map PyStr ps)) out))
      = stdout w @ [Starting, InputFiles ps, OutputFile out] @ read_log 0 (length ps) pg ps
        @ (if concat (map pg ps) = [] then [NoPagesAdded] else [])
        @ (if needs_dir (fs w) out then [CreatedDir (dirname out)] else [])
        @ [Success (length ps) out]"
    by (simp only: m except_clauses.simps snd_conv) (simp add: after_reads_def)
qed

lemma concat_nonempty_inputs:
  "concat (map pg (filter (\<lambda>p. pg p \<noteq> []) ps)) = concat (map pg ps)"
  by (induction ps) simp_all

lemma WarnEmpty_in_read_log:
  "z \<in> set ps \<Longrightarrow> pg z = [] \<Longrightarrow> WarnEmpty (basename z) \<in> set (read_log i n pg ps)"
  by (induction ps arbitrary: i) auto

lemma no_failure_in_read_log:
  "MergeFailed e \<notin> set (read_log i n pg ps) \<and> Unexpected e \<notin> set (read_log i n pg ps)"
  by (induction ps arbitrary: i) auto

lemma fst_except_clauses [simp]: "fst (except_clauses r) = fst r"
  by (cases r rule: except_clauses.cases) simp_all

lemma fs_except_clauses [simp]: "fs (snd (except_clauses r)) = fs (snd r)"
  by (cases r rule: except_clauses.cases) simp_all

lemma stdout_except_clauses: "set (stdout (snd r)) \<subseteq> set (stdout (snd (except_clauses r)))"
  by (cases r rule: except_clauses.cases) auto

lemma merge_pdfs_checked:
  assumes "ps \<noteq> []" and "check_exist (fs w) ps = None"
  shows "merge_pdfs env w (PyList (map PyStr ps)) out
    = except_clauses
        (try_body env (say (say (say w Starting) (InputFiles ps)) (OutputFile out)) ps out)"
  by (simp add: merge_pdfs_def validate_strs [OF assms(1)] assms(2) del: validate.simps)

lemma try_body_read_failure:
  assumes "fst (process_inputs env (fs w) 0 (length ps) ps [] (stdout w)) = Inl x"
  shows "fst (try_body env w ps out) = Inl x \<and> fs (snd (try_body env w ps out)) = fs w"
  using assms
  by (cases "process_inputs env (fs w) 0 (length ps) ps [] (stdout w)")
    (simp add: try_body_def)

lemma reraise_quotes_basename: "sublist (quoted (basename p)) (str (reraise p e))"
proof -
  have "sublist s (a @ s @ b)" for s a b :: string
    by (auto simp: sublist_def)
  then show ?thesis
    by (cases e) (simp_all only: reraise.simps str.simps)
qed

lemma reraise_keeps_text: "sublist (str e) (str (reraise p e))"
proof -
  have "sublist s (a @ b @ c @ s)" for s a b c :: string
    unfolding sublist_def by (rule exI [of _ "a @ b @ c"], rule exI [of _ "[]"]) simp
  then show ?thesis
    by (cases e) (simp_all only: reraise.simps str.simps)
qed

lemma check_exist_first:
  assumes "\<forall>x\<in>set pre. isfile f x" and "\<not> isfile f q"
  shows "check_exist f (pre @ q # post)
    = Some (FileNotFoundError
        ((if exists_path f q then ''Input path is not a file: '' else ''Input file not found: '')
          @ q))"
  using assms by (induction pre) (auto dest: isfile_exists)

lemma write_output_elsewhere:
  assumes "dir_fault env (fs w) out = None" and "q \<noteq> out"
  shows "fs (snd (write_output env w wr n out)) q = with_output_dir env (fs w) out q"
proof (cases "open_wb_fault env out")
  case (Some e)
  from write_output_open_fault [OF assms(1) Some] show ?thesis
    by simp
next
  case None
  show ?thesis
  proof (cases "write_fault env out")
    case (Some ke)
    then obtain k e where "write_fault env out = Some (k, e)"
      by (cases ke) simp
    from write_output_write_fault [OF assms(1) None this] assms(2) show ?thesis
      by simp
  next
    case n: None
    from assms(1) None n have "output_ok env (fs w) out"
      by (simp add: output_ok_def)
    from write_output_ok [OF this] assms(2) show ?thesis
      by simp
  qed
qed

lemma write_output_CreatedDir:
  assumes "dir_fault env (fs w) out = None" and "needs_dir (fs w) out"
  shows "CreatedDir (dirname out) \<in> set (stdout (snd (write_output env w wr n out)))"
proof (cases "open_wb_fault env out")
  case (Some e)
  from write_output_open_fault [OF assms(1) Some] assms(2) show ?thesis
    by simp
next
  case None
  show ?thesis
  proof (cases "write_fault env out")
    case (Some ke)
    then obtain k e where "write_fault env out = Some (k, e)"
      by (cases ke) simp
    from write_output_write_fault [OF assms(1) None this] assms(2) show ?thesis
      by simp
  next
    case n: None
    from assms(1) None n have "output_ok env (fs w) out"
      by (simp add: output_ok_def)
    from write_output_ok [OF this] assms(2) show ?thesis
      by simp
  qed
qed

section \<open>The model on the small world\<close>

lemma fs_toy_world [simp]: "fs toy_world = toy_fs"
  by (simp add: toy_world_def)

lemma toy_read_a: "read_input toy_env toy_fs ''a.pdf'' = Inr [''a1'', ''a2'']"
  by (simp add: read_input_def toy_env_def toy_fs_def toy_reader_def)

lemma toy_read_b: "read_input toy_env toy_fs ''b.pdf'' = Inr [''b1'']"
  by (simp add: read_input_def toy_env_def toy_fs_def toy_reader_def)

lemma toy_read_empty: "read_input toy_env toy_fs ''empty.pdf'' = Inr []"
  by (simp add: read_input_def toy_env_def toy_fs_def toy_reader_def)

lemma toy_read_bad:
  "read_input toy_env toy_fs ''bad.pdf'' = Inl (PdfReadError ''EOF marker not found'')"
  by (simp add: read_input_def toy_env_def toy_fs_def toy_reader_def)

lemma toy_output_ok: "output_ok toy_env toy_fs ''out.pdf''"
  by (simp add: output_ok_def dir_fault_def needs_dir_def dirname_def toy_env_def)

lemma toy_roundtrip:
  "PdfReader toy_env (PdfWriter_write toy_env [''a1'', ''a2'', ''b1'']) = Inr [''a1'', ''a2'', ''b1'']"
  "PdfReader toy_env (PdfWriter_write toy_env [''a1'', ''a2'']) = Inr [''a1'', ''a2'']"
  by (simp_all add: toy_env_def toy_reader_def toy_writer_def)

lemma toy_isfile: "isfile toy_fs ''a.pdf''" "isfile toy_fs ''bad.pdf''" "isfile toy_fs ''b.pdf''"
  by (simp_all add: isfile_def toy_fs_def)

lemma other_read_a:
  "read_input locked_env toy_fs ''a.pdf'' = Inr [''a1'', ''a2'']"
  "read_input full_disk_env toy_fs ''a.pdf'' = Inr [''a1'', ''a2'']"
  by (simp_all add: read_input_def locked_env_def full_disk_env_def toy_env_def
      toy_fs_def toy_reader_def)

lemma toy_out: "toy_fs ''out.pdf'' = Some (File ''%PDFold1;old2;old3;'')"
  by (simp add: toy_fs_def)

lemma toy_dirname:
  "dirname ''out.pdf'' = []"
  "dirname ''x/y/out.pdf'' = ''x/y''"
  "dirname ''a.pdf/sub/out.pdf'' = ''a.pdf/sub''"
  "dirname (''a'' @ [CHR 0x00] @ ''b/out.pdf'') = ''a'' @ [CHR 0x00] @ ''b''"
  "dirname (''p/a'' @ [CHR 0x00] @ ''b/out.pdf'') = ''p/a'' @ [CHR 0x00] @ ''b''"
  by (simp_all add: dirname_def)

lemma toy_missing:
  "\<not> exists_path toy_fs ''x/y''"
  "\<not> exists_path toy_fs ''a.pdf/sub''"
  "\<not> exists_path toy_fs (''a'' @ [CHR 0x00] @ ''b'')"
  "\<not> exists_path toy_fs (''p/a'' @ [CHR 0x00] @ ''b'')"
  by (simp_all add: exists_path_def toy_fs_def)

lemma toy_makedirs_two_levels:
  "makedirs toy_env toy_fs ''x/y'' = (None, toy_fs(''x'' \<mapsto> Dir, ''x/y'' \<mapsto> Dir))"
  by (simp add: toy_env_def toy_makedirs_def toy_mkdir_def dirname_def toy_fs_def)

lemma toy_makedirs_below_file:
  "makedirs toy_env toy_fs ''a.pdf/sub''
     = (Some (IOError (''[Errno 20] Not a directory: '' @ quoted ''a.pdf/sub'')), toy_fs)"
  by (simp add: toy_env_def toy_makedirs_def toy_mkdir_def dirname_def toy_fs_def)

lemma toy_makedirs_nul:
  "makedirs toy_env toy_fs (''a'' @ [CHR 0x00] @ ''b'')
     = (Some (ValueError ''embedded null byte''), toy_fs)"
  by (simp add: toy_env_def toy_makedirs_def toy_mkdir_def dirname_def toy_fs_def)

lemma toy_makedirs_deep_nul:
  "makedirs toy_env toy_fs (''p/a'' @ [CHR 0x00] @ ''b'')
     = (Some (ValueError ''embedded null byte''), toy_fs(''p'' \<mapsto> Dir))"
  by (simp add: toy_env_def toy_makedirs_def toy_mkdir_def dirname_def toy_fs_def)

section \<open>The claims\<close>

text \<open>
  C6. Merging an empty input list fails with a validation error before any file is
  touched. \<^verbatim>\<open>merge_pdfs([], output_path)\<close> raises the \<^verbatim>\<open>ValueError\<close> of line 24 in every
  environment and every world, whatever the file system holds, and returns the world as
  it received it: no input was opened and no output was created.
\<close>

theorem empty_list_rejected:
  "merge_pdfs env w (PyList []) output_path
     = (Inl (ValueError ''input_paths must be a non-empty list of file paths.''), w)"
  by (simp add: merge_pdfs_def)

text \<open>
  C9. For every argument that is not a list, or is a list with an element that is not a
  string, \<^verbatim>\<open>merge_pdfs\<close> raises \<^verbatim>\<open>ValueError\<close> before any access to the file system:
  the exception is the same in every environment and every world, and the world is
  returned unchanged.
\<close>

theorem ill_typed_argument_rejected:
  assumes "(\<forall>xs. v \<noteq> PyList xs) \<or> (\<exists>xs. v = PyList xs \<and> (\<exists>x\<in>set xs. \<not> is_str x))"
  shows "\<exists>m. \<forall>(env :: 'p env) w. merge_pdfs env w v output_path = (Inl (ValueError m), w)"
proof -
  have "\<exists>m. validate v = Inl (ValueError m)"
  proof (cases v)
    case (PyList xs)
    with assms obtain x where "x \<in> set xs" and "\<not> is_str x"
      by auto
    then have "xs \<noteq> []" and "\<not> list_all is_str xs"
      by (auto simp: list_all_iff)
    with PyList show ?thesis
      by simp
  qed simp_all
  then obtain m where "validate v = Inl (ValueError m)" ..
  then have "\<forall>(env :: 'p env) w. merge_pdfs env w v output_path = (Inl (ValueError m), w)"
    by (simp add: merge_pdfs_def)
  then show ?thesis ..
qed

theorem ill_typed_argument_rejected_witness:
  "(\<forall>xs. PyStr ''not a list'' \<noteq> PyList xs)
   \<and> (\<exists>m. \<forall>(env :: string env) w.
         merge_pdfs env w (PyStr ''not a list'') ''out.pdf'' = (Inl (ValueError m), w))
   \<and> (\<exists>x\<in>set [PyStr ''a.pdf'', PyInt 5]. \<not> is_str x)
   \<and> (\<exists>m. \<forall>(env :: string env) w.
         merge_pdfs env w (PyList [PyStr ''a.pdf'', PyInt 5]) ''out.pdf''
           = (Inl (ValueError m), w))"
proof -
  have a: "\<forall>xs. PyStr ''not a list'' \<noteq> PyList xs"
    by simp
  have b: "\<exists>x\<in>set [PyStr ''a.pdf'', PyInt 5]. \<not> is_str x"
    by simp
  from a have "(\<forall>xs. PyStr ''not a list'' \<noteq> PyList xs)
      \<or> (\<exists>xs. PyStr ''not a list'' = PyList xs \<and> (\<exists>x\<in>set xs. \<not> is_str x))" ..
  note 1 = ill_typed_argument_rejected [OF this, where 'p = string and output_path = "''out.pdf''"]
  from b have "(\<forall>xs. PyList [PyStr ''a.pdf'', PyInt 5] \<noteq> PyList xs)
      \<or> (\<exists>xs. PyList [PyStr ''a.pdf'', PyInt 5] = PyList xs \<and> (\<exists>x\<in>set xs. \<not> is_str x))"
    by blast
  note 2 = ill_typed_argument_rejected [OF this, where 'p = string and output_path = "''out.pdf''"]
  from a b 1 2 show ?thesis
    by blast
qed

text \<open>
  C1. For every pair of valid PDF inputs A and B, merging \<open>[A, B]\<close> produces an output
  document whose page count is the sum of the two page counts, with the pages of A first
  and the pages of B after them, each in its document's order. Here A and B are paths
  that \<^verbatim>\<open>merge_pdfs\<close> reads as the page lists \<open>pa\<close> and \<open>pb\<close>, the operating system lets
  the output be written, and PyPDF2 reads back what it wrote for \<open>pa @ pb\<close>. Then the call
  returns normally and the destination holds the document PyPDF2 writes for \<open>pa @ pb\<close>,
  whose pages are \<open>pa @ pb\<close>.
\<close>

theorem merge_two_documents:
  assumes "read_input env (fs w) a = Inr pa" and "read_input env (fs w) b = Inr pb"
    and "output_ok env (fs w) out"
    and "PdfReader env (PdfWriter_write env (pa @ pb)) = Inr (pa @ pb)"
  shows "fst (merge_pdfs env w (PyList [PyStr a, PyStr b]) out) = Inr ()
    \<and> (\<exists>doc pages.
          fs (snd (merge_pdfs env w (PyList [PyStr a, PyStr b]) out)) out = Some (File doc)
          \<and> doc = PdfWriter_write env (pa @ pb)
          \<and> PdfReader env doc = Inr pages
          \<and> pages = pa @ pb
          \<and> length pages = length pa + length pb)"
proof -
  define pg where "pg = (\<lambda>p. if p = a then pa else pb)"
  have "pg a = pa" and "pg b = pb"
    using assms(1,2) by (auto simp: pg_def)
  then have r: "\<forall>p\<in>set [a, b]. read_input env (fs w) p = Inr (pg p)"
    using assms(1,2) by simp
  have c: "concat (map pg [a, b]) = pa @ pb"
    using \<open>pg a = pa\<close> \<open>pg b = pb\<close> by simp
  have ne: "[a, b] \<noteq> []"
    by simp
  have v: "PyList (map PyStr [a, b]) = PyList [PyStr a, PyStr b]"
    by simp
  note m = merge_pdfs_ok(1,2) [OF ne r assms(3), unfolded c v]
  show ?thesis
    using m(1) assms(4) by (simp add: m(2))
qed

theorem merge_two_documents_witness:
  "read_input toy_env (fs toy_world) ''a.pdf'' = Inr [''a1'', ''a2'']
   \<and> read_input toy_env (fs toy_world) ''b.pdf'' = Inr [''b1'']
   \<and> output_ok toy_env (fs toy_world) ''out.pdf''
   \<and> fst (merge_pdfs toy_env toy_world (PyList [PyStr ''a.pdf'', PyStr ''b.pdf'']) ''out.pdf'')
       = Inr ()
   \<and> fs (snd (merge_pdfs toy_env toy_world (PyList [PyStr ''a.pdf'', PyStr ''b.pdf''])
         ''out.pdf'')) ''out.pdf'' = Some (File ''%PDFa1;a2;b1;'')
   \<and> PdfReader toy_env ''%PDFa1;a2;b1;'' = Inr [''a1'', ''a2'', ''b1'']"
proof -
  have a: "read_input toy_env (fs toy_world) ''a.pdf'' = Inr [''a1'', ''a2'']"
    by (simp add: toy_read_a)
  have b: "read_input toy_env (fs toy_world) ''b.pdf'' = Inr [''b1'']"
    by (simp add: toy_read_b)
  have c: "output_ok toy_env (fs toy_world) ''out.pdf''"
    by (simp add: toy_output_ok)
  have d: "PdfReader toy_env (PdfWriter_write toy_env ([''a1'', ''a2''] @ [''b1'']))
      = Inr ([''a1'', ''a2''] @ [''b1''])"
    by (simp add: toy_roundtrip)
  have e: "PdfWriter_write toy_env ([''a1'', ''a2''] @ [''b1'']) = ''%PDFa1;a2;b1;''"
    by (simp add: toy_env_def toy_writer_def)
  from merge_two_documents [OF a b c d] a b c show ?thesis
    unfolding e by auto
qed

text \<open>
  C2. For every valid PDF input A, merging \<open>[A]\<close> with the default page selection produces
  an output document with the page count of A and, page by page, the content-stream bytes
  of A. \<^verbatim>\<open>merge_pdfs\<close> has no page selection: it adds every page. With A read as the page
  list \<open>pa\<close>, the output writable and PyPDF2 reading back what it wrote for \<open>pa\<close>, the
  destination holds a document whose page list is \<open>pa\<close> itself, so every observation of
  the pages (\<open>content_stream\<close>) gives the same values on both.
\<close>

theorem merge_single_document:
  assumes "read_input env (fs w) a = Inr pa"
    and "output_ok env (fs w) out"
    and "PdfReader env (PdfWriter_write env pa) = Inr pa"
  shows "fst (merge_pdfs env w (PyList [PyStr a]) out) = Inr ()
    \<and> (\<exists>doc pages.
          fs (snd (merge_pdfs env w (PyList [PyStr a]) out)) out = Some (File doc)
          \<and> PdfReader env doc = Inr pages
          \<and> length pages = length pa
          \<and> (\<forall>content_stream :: 'p \<Rightarrow> bytes. map content_stream pages = map content_stream pa))"
proof -
  have r: "\<forall>p\<in>set [a]. read_input env (fs w) p = Inr ((\<lambda>p. pa) p)"
    using assms(1) by simp
  have ne: "[a] \<noteq> []"
    by simp
  have c: "concat (map (\<lambda>p. pa) [a]) = pa"
    by simp
  have v: "PyList (map PyStr [a]) = PyList [PyStr a]"
    by simp
  note m = merge_pdfs_ok(1,2) [OF ne r assms(2), unfolded c v]
  show ?thesis
    using m(1) assms(3) by (simp add: m(2))
qed

theorem merge_single_document_witness:
  "read_input toy_env (fs toy_world) ''a.pdf'' = Inr [''a1'', ''a2'']
   \<and> output_ok toy_env (fs toy_world) ''out.pdf''
   \<and> PdfReader toy_env (PdfWriter_write toy_env [''a1'', ''a2'']) = Inr [''a1'', ''a2'']
   \<and> fst (merge_pdfs toy_env toy_world (PyList [PyStr ''a.pdf'']) ''out.pdf'') = Inr ()
   \<and> (\<exists>doc. fs (snd (merge_pdfs toy_env toy_world (PyList [PyStr ''a.pdf'']) ''out.pdf''))
          ''out.pdf'' = Some (File doc)
        \<and> PdfReader toy_env doc = Inr [''a1'', ''a2''])"
proof -
  have a: "read_input toy_env (fs toy_world) ''a.pdf'' = Inr [''a1'', ''a2'']"
    by (simp add: toy_read_a)
  have c: "output_ok toy_env (fs toy_world) ''out.pdf''"
    by (simp add: toy_output_ok)
  have d: "PdfReader toy_env (PdfWriter_write toy_env [''a1'', ''a2'']) = Inr [''a1'', ''a2'']"
    by (simp add: toy_roundtrip)
  from merge_single_document [OF a c d] obtain doc pages where
    "fst (merge_pdfs toy_env toy_world (PyList [PyStr ''a.pdf'']) ''out.pdf'') = Inr ()"
    "fs (snd (merge_pdfs toy_env toy_world (PyList [PyStr ''a.pdf'']) ''out.pdf'')) ''out.pdf''
       = Some (File doc)"
    "PdfReader toy_env doc = Inr pages"
    "\<forall>content_stream :: string \<Rightarrow> bytes. map content_stream pages = map content_stream [''a1'', ''a2'']"
    by blast
  moreover from this(4) have "map (\<lambda>x. x) pages = map (\<lambda>x. x) [''a1'', ''a2'']"
    by blast
  ultimately show ?thesis
    using a c d by auto
qed

text \<open>
  C3 as stated does not hold. It says that a merge in which no page was appended fails
  with an \<open>EmptyOutput\<close> error instead of writing an empty document, unless the caller has
  asked for the empty document. \<^verbatim>\<open>merge_pdfs\<close> has no such error and no such option:
  line 75 prints a notice, the \<^verbatim>\<open>raise\<close> of line 77 is commented out, and the empty
  document is written. On the small world, merging the input without pages returns
  normally and leaves the document of an empty page list at the destination.
\<close>

theorem empty_output_written_counterexample:
  "read_input toy_env (fs toy_world) ''empty.pdf'' = Inr []
   \<and> fst (merge_pdfs toy_env toy_world (PyList [PyStr ''empty.pdf'']) ''out.pdf'') = Inr ()
   \<and> fs (snd (merge_pdfs toy_env toy_world (PyList [PyStr ''empty.pdf'']) ''out.pdf''))
        ''out.pdf'' = Some (File (PdfWriter_write toy_env []))"
  by (simp add: merge_pdfs_def try_body_def write_output_def write_file_def
      make_output_dir_def read_input_def say_def dirname_def basename_def exists_path_def
      isfile_def toy_env_def toy_world_def toy_fs_def toy_reader_def)

text \<open>
  C3, amended. If every input is read and none has a page, so that no page was appended
  over the whole merge, and the output can be written, then \<^verbatim>\<open>merge_pdfs\<close> prints the
  notice of line 75, writes the document of the empty page list to the destination and
  returns normally.
\<close>

theorem empty_merge_still_written:
  assumes "ps \<noteq> []" and "\<forall>p\<in>set ps. read_input env (fs w) p = Inr []"
    and "output_ok env (fs w) out"
  shows "fst (merge_pdfs env w (PyList (map PyStr ps)) out) = Inr ()
    \<and> fs (snd (merge_pdfs env w (PyList (map PyStr ps)) out)) out
        = Some (File (PdfWriter_write env []))
    \<and> NoPagesAdded \<in> set (stdout (snd (merge_pdfs env w (PyList (map PyStr ps)) out)))"
proof -
  have r: "\<forall>p\<in>set ps. read_input env (fs w) p = Inr ((\<lambda>p. []) p)"
    using assms(2) by simp
  have c: "concat (map (\<lambda>p. []) ps) = []"
    by simp
  note m = merge_pdfs_ok [OF assms(1) r assms(3), unfolded c]
  show ?thesis
    by (simp add: m del: validate.simps)
qed

theorem empty_merge_still_written_witness:
  "[''empty.pdf''] \<noteq> []
   \<and> read_input toy_env (fs toy_world) ''empty.pdf'' = Inr []
   \<and> output_ok toy_env (fs toy_world) ''out.pdf''
   \<and> fst (merge_pdfs toy_env toy_world (PyList (map PyStr [''empty.pdf''])) ''out.pdf'') = Inr ()
   \<and> fs (snd (merge_pdfs toy_env toy_world (PyList (map PyStr [''empty.pdf''])) ''out.pdf''))
        ''out.pdf'' = Some (File ''%PDF'')
   \<and> NoPagesAdded \<in> set (stdout (snd (merge_pdfs toy_env toy_world
        (PyList (map PyStr [''empty.pdf''])) ''out.pdf'')))"
proof -
  have n: "[''empty.pdf''] \<noteq> []"
    by simp
  have e: "read_input toy_env (fs toy_world) ''empty.pdf'' = Inr []"
    by (simp add: toy_read_empty)
  then have r: "\<forall>p\<in>set [''empty.pdf'']. read_input toy_env (fs toy_world) p = Inr []"
    by simp
  have c: "output_ok toy_env (fs toy_world) ''out.pdf''"
    by (simp add: toy_output_ok)
  have d: "PdfWriter_write toy_env [] = ''%PDF''"
    by (simp add: toy_env_def toy_writer_def)
  from empty_merge_still_written [OF n r c] e c show ?thesis
    unfolding d by simp
qed

text \<open>
  C8. For every input list with an input that has no readable page, that input is
  skipped with a warning, not an error: the merge is not aborted and the pages of the
  other inputs appear in the output in order. With every input read (as \<open>pg p\<close>), one of
  them, \<open>z\<close>, without pages, and the output writable, the call returns normally, the
  destination holds the document of the pages of the inputs that have pages, in list
  order, and what the call printed contains the warning for \<open>z\<close> and no failure line.
\<close>

theorem empty_input_skipped:
  assumes "\<forall>p\<in>set ps. read_input env (fs w) p = Inr (pg p)"
    and "z \<in> set ps" and "pg z = []"
    and "output_ok env (fs w) out"
  shows "fst (merge_pdfs env w (PyList (map PyStr ps)) out) = Inr ()
    \<and> fs (snd (merge_pdfs env w (PyList (map PyStr ps)) out)) out
        = Some (File (PdfWriter_write env (concat (map pg (filter (\<lambda>p. pg p \<noteq> []) ps)))))
    \<and> (\<exists>printed. stdout (snd (merge_pdfs env w (PyList (map PyStr ps)) out)) = stdout w @ printed
          \<and> WarnEmpty (basename z) \<in> set printed
          \<and> (\<forall>e. MergeFailed e \<notin> set printed \<and> Unexpected e \<notin> set printed))"
proof -
  from assms(2) have ne: "ps \<noteq> []"
    by auto
  note m = merge_pdfs_ok [OF ne assms(1,4)]
  let ?printed = "[Starting, InputFiles ps, OutputFile out] @ read_log 0 (length ps) pg ps
        @ (if concat (map pg ps) = [] then [NoPagesAdded] else [])
        @ (if needs_dir (fs w) out then [CreatedDir (dirname out)] else [])
        @ [Success (length ps) out]"
  have "stdout (snd (merge_pdfs env w (PyList (map PyStr ps)) out)) = stdout w @ ?printed"
    by (simp only: m(3))
  moreover have "WarnEmpty (basename z) \<in> set ?printed"
    using WarnEmpty_in_read_log [of z ps pg 0 "length ps"] assms(2,3) by simp
  moreover have "\<forall>e. MergeFailed e \<notin> set ?printed \<and> Unexpected e \<notin> set ?printed"
    by (simp add: no_failure_in_read_log)
  ultimately have "\<exists>printed. stdout (snd (merge_pdfs env w (PyList (map PyStr ps)) out))
        = stdout w @ printed
      \<and> WarnEmpty (basename z) \<in> set printed
      \<and> (\<forall>e. MergeFailed e \<notin> set printed \<and> Unexpected e \<notin> set printed)"
    by blast
  then show ?thesis
    by (simp add: m(1,2) concat_nonempty_inputs del: validate.simps)
qed


theorem empty_input_skipped_witness:
  "read_input toy_env (fs toy_world) ''a.pdf'' = Inr [''a1'', ''a2'']
   \<and> read_input toy_env (fs toy_world) ''empty.pdf'' = Inr []
   \<and> read_input toy_env (fs toy_world) ''b.pdf'' = Inr [''b1'']
   \<and> output_ok toy_env (fs toy_world) ''out.pdf''
   \<and> fst (merge_pdfs toy_env toy_world
         (PyList [PyStr ''a.pdf'', PyStr ''empty.pdf'', PyStr ''b.pdf'']) ''out.pdf'') = Inr ()
   \<and> fs (snd (merge_pdfs toy_env toy_world
         (PyList [PyStr ''a.pdf'', PyStr ''empty.pdf'', PyStr ''b.pdf'']) ''out.pdf'')) ''out.pdf''
       = Some (File ''%PDFa1;a2;b1;'')
   \<and> WarnEmpty ''empty.pdf'' \<in> set (stdout (snd (merge_pdfs toy_env toy_world
         (PyList [PyStr ''a.pdf'', PyStr ''empty.pdf'', PyStr ''b.pdf'']) ''out.pdf'')))"
proof -
  define pg :: "path \<Rightarrow> string list" where
    "pg = (\<lambda>p. if p = ''a.pdf'' then [''a1'', ''a2''] else if p = ''b.pdf'' then [''b1''] else [])"
  let ?ps = "[''a.pdf'', ''empty.pdf'', ''b.pdf'']"
  have a: "read_input toy_env (fs toy_world) ''a.pdf'' = Inr [''a1'', ''a2'']"
    by (simp add: toy_read_a)
  have e: "read_input toy_env (fs toy_world) ''empty.pdf'' = Inr []"
    by (simp add: toy_read_empty)
  have b: "read_input toy_env (fs toy_world) ''b.pdf'' = Inr [''b1'']"
    by (simp add: toy_read_b)
  have r: "\<forall>p\<in>set ?ps. read_input toy_env (fs toy_world) p = Inr (pg p)"
    using a e b by (simp add: pg_def)
  have z: "''empty.pdf'' \<in> set ?ps" and pz: "pg ''empty.pdf'' = []"
    by (simp_all add: pg_def)
  have c: "output_ok toy_env (fs toy_world) ''out.pdf''"
    by (simp add: toy_output_ok)
  have d: "PdfWriter_write toy_env (concat (map pg (filter (\<lambda>p. pg p \<noteq> []) ?ps)))
      = ''%PDFa1;a2;b1;''"
    by (simp add: pg_def toy_env_def toy_writer_def)
  have bn: "basename ''empty.pdf'' = ''empty.pdf''"
    by (simp add: basename_def)
  from empty_input_skipped [OF r z pz c] a e b c show ?thesis
    unfolding d bn by auto
qed

text \<open>
  C5 as stated does not hold. It says that when reading an input fails, the error
  identifies the offending input. Lines 67 and 70 put \<^verbatim>\<open>os.path.basename(input_path)\<close>
  into the message, not the path: for two inputs of one base name in different
  directories the error is the same whichever of them cannot be read.
\<close>

theorem same_basename_counterexample:
  "read_input toy_env (fs twins_x_bad) ''x/a.pdf'' = Inl (PdfReadError ''EOF marker not found'')
   \<and> read_input toy_env (fs twins_x_bad) ''y/a.pdf'' = Inr [''y1'']
   \<and> read_input toy_env (fs twins_y_bad) ''x/a.pdf'' = Inr [''x1'']
   \<and> read_input toy_env (fs twins_y_bad) ''y/a.pdf'' = Inl (PdfReadError ''EOF marker not found'')
   \<and> fst (merge_pdfs toy_env twins_x_bad (PyList [PyStr ''x/a.pdf'', PyStr ''y/a.pdf''])
         ''out.pdf'')
       = Inl (PdfReadError
           (''Error reading PDF file '' @ quoted ''a.pdf'' @ '': EOF marker not found''))
   \<and> fst (merge_pdfs toy_env twins_y_bad (PyList [PyStr ''x/a.pdf'', PyStr ''y/a.pdf''])
         ''out.pdf'')
       = Inl (PdfReadError
           (''Error reading PDF file '' @ quoted ''a.pdf'' @ '': EOF marker not found''))"
  by (simp add: merge_pdfs_def try_body_def read_input_def say_def basename_def exists_path_def
      isfile_def add_pages_def quoted_def toy_env_def twins_x_bad_def twins_y_bad_def
      toy_reader_def)

text \<open>
  C5, amended. If reading any input fails (a malformed or encrypted document, or another
  error while the file is opened and parsed), the merge as a whole aborts and no output
  of a partial merge is written. The error is made from the first input of the list that
  cannot be read, \<open>p\<close>, and its exception \<open>e\<close>, by the handlers of lines 65 to 70: a
  \<^verbatim>\<open>PdfReadError\<close> for a \<^verbatim>\<open>PdfReadError\<close>, an \<^verbatim>\<open>Exception\<close> for anything else, with a
  message that carries the quoted base name \<^verbatim>\<open>os.path.basename(p)\<close> (not the path) and the
  text of \<open>e\<close>. The file system is left exactly as it was.
\<close>

theorem first_read_failure_aborts:
  assumes "\<forall>p\<in>set ps. isfile (fs w) p"
    and "\<exists>p\<in>set ps. \<exists>e. read_input env (fs w) p = Inl e"
  shows "\<exists>pre p post e. ps = pre @ p # post
      \<and> (\<forall>x\<in>set pre. \<exists>pages. read_input env (fs w) x = Inr pages)
      \<and> read_input env (fs w) p = Inl e
      \<and> fst (merge_pdfs env w (PyList (map PyStr ps)) out) = Inl (reraise p e)
      \<and> sublist (quoted (basename p)) (str (reraise p e))
      \<and> sublist (str e) (str (reraise p e))
      \<and> fs (snd (merge_pdfs env w (PyList (map PyStr ps)) out)) = fs w"
proof -
  from assms(2) obtain pre p post where
    ps: "ps = pre @ p # post" and
    p: "\<exists>e. read_input env (fs w) p = Inl e" and
    pre: "\<forall>x\<in>set pre. \<not> (\<exists>e. read_input env (fs w) x = Inl e)"
    by (auto dest!: split_list_first_prop)
  from p obtain e where e: "read_input env (fs w) p = Inl e" ..
  have ok: "\<forall>x\<in>set pre. \<exists>pages. read_input env (fs w) x = Inr pages"
  proof
    fix x assume "x \<in> set pre"
    with pre have "\<not> (\<exists>e. read_input env (fs w) x = Inl e)" ..
    then show "\<exists>pages. read_input env (fs w) x = Inr pages"
      by (cases "read_input env (fs w) x") auto
  qed
  let ?w1 = "say (say (say w Starting) (InputFiles ps)) (OutputFile out)"
  have "fst (process_inputs env (fs ?w1) 0 (length ps) ps [] (stdout ?w1)) = Inl (reraise p e)"
    using process_inputs_fail [OF ok e] by (simp add: ps)
  from try_body_read_failure [OF this, of out]
  have t: "fst (try_body env ?w1 ps out) = Inl (reraise p e)"
    "fs (snd (try_body env ?w1 ps out)) = fs w"
    by simp_all
  have ne: "ps \<noteq> []"
    by (simp add: ps)
  note m = merge_pdfs_checked [OF ne check_exist_isfile [OF assms(1)], of env out]
  have "fst (merge_pdfs env w (PyList (map PyStr ps)) out) = Inl (reraise p e)"
    and "fs (snd (merge_pdfs env w (PyList (map PyStr ps)) out)) = fs w"
    by (simp_all only: m fst_except_clauses fs_except_clauses t)
  with ps ok e reraise_quotes_basename [of p e] reraise_keeps_text [of e p] show ?thesis
    by blast
qed

theorem first_read_failure_aborts_witness:
  "isfile (fs toy_world) ''a.pdf'' \<and> isfile (fs toy_world) ''bad.pdf''
   \<and> isfile (fs toy_world) ''b.pdf''
   \<and> read_input toy_env (fs toy_world) ''a.pdf'' = Inr [''a1'', ''a2'']
   \<and> read_input toy_env (fs toy_world) ''bad.pdf'' = Inl (PdfReadError ''EOF marker not found'')
   \<and> fst (merge_pdfs toy_env toy_world
         (PyList [PyStr ''a.pdf'', PyStr ''bad.pdf'', PyStr ''b.pdf'']) ''out.pdf'')
       = Inl (PdfReadError
           (''Error reading PDF file '' @ quoted ''bad.pdf'' @ '': EOF marker not found''))
   \<and> fs (snd (merge_pdfs toy_env toy_world
         (PyList [PyStr ''a.pdf'', PyStr ''bad.pdf'', PyStr ''b.pdf'']) ''out.pdf''))
       = fs toy_world"
proof -
  let ?ps = "[''a.pdf'', ''bad.pdf'', ''b.pdf'']"
  have f: "\<forall>p\<in>set ?ps. isfile (fs toy_world) p"
    by (simp add: toy_isfile)
  have a: "read_input toy_env (fs toy_world) ''a.pdf'' = Inr [''a1'', ''a2'']"
    by (simp add: toy_read_a)
  have b: "read_input toy_env (fs toy_world) ''bad.pdf'' = Inl (PdfReadError ''EOF marker not found'')"
    by (simp add: toy_read_bad)
  then have x: "\<exists>p\<in>set ?ps. \<exists>e. read_input toy_env (fs toy_world) p = Inl e"
    by simp
  have bn: "basename ''bad.pdf'' = ''bad.pdf''"
    by (simp add: basename_def)
  from first_read_failure_aborts [OF f x, of "''out.pdf''"] obtain pre p post e where
    ps: "?ps = pre @ p # post"
    and pre: "\<forall>x\<in>set pre. \<exists>pages. read_input toy_env (fs toy_world) x = Inr pages"
    and p: "read_input toy_env (fs toy_world) p = Inl e"
    and r: "fst (merge_pdfs toy_env toy_world (PyList (map PyStr ?ps)) ''out.pdf'')
      = Inl (reraise p e)"
    and u: "fs (snd (merge_pdfs toy_env toy_world (PyList (map PyStr ?ps)) ''out.pdf''))
      = fs toy_world"
    by blast
  from ps pre p have "p = ''bad.pdf''"
    by (auto simp: Cons_eq_append_conv toy_read_a toy_read_b toy_read_bad)
  with p b have "e = PdfReadError ''EOF marker not found''"
    by simp
  with r \<open>p = ''bad.pdf''\<close> u a b f show ?thesis
    by (simp add: bn)
qed

text \<open>
  C7 as stated does not hold. It says that whenever a path of the input list does not
  exist, the error names the missing path. The check of lines 30 to 34 walks the list in
  order and stops at the first path that is missing or is not a regular file: when a
  directory stands before the missing path, the error names the directory, and the
  missing path occurs nowhere in its message.
\<close>

theorem missing_path_not_named_counterexample:
  "\<not> exists_path (fs toy_world) ''missing.pdf''
   \<and> merge_pdfs toy_env toy_world (PyList [PyStr ''docs'', PyStr ''missing.pdf'']) ''out.pdf''
       = (Inl (FileNotFoundError ''Input path is not a file: docs''), toy_world)
   \<and> \<not> sublist ''missing.pdf'' ''Input path is not a file: docs''"
  by (simp add: merge_pdfs_def exists_path_def isfile_def toy_world_def toy_fs_def
      sublist_Cons_right)

text \<open>
  C7, amended. If any path of the input list (a list of strings) does not exist, the
  merge fails with a \<^verbatim>\<open>FileNotFoundError\<close> that names the first path of the list, \<open>q\<close>,
  that does not exist or is not a regular file (so the missing path itself whenever all
  paths before it are regular files). The failure comes before any parsing: the result is
  the same in every environment, whatever PyPDF2 would answer, and the world is returned
  unchanged, so no output file is created.
\<close>

theorem missing_input_rejected:
  assumes "\<exists>p\<in>set ps. \<not> exists_path (fs w) p"
  shows "\<exists>pre q post. ps = pre @ q # post
      \<and> (\<forall>x\<in>set pre. isfile (fs w) x) \<and> \<not> isfile (fs w) q
      \<and> (\<forall>env :: 'p env. merge_pdfs env w (PyList (map PyStr ps)) out
           = (Inl (FileNotFoundError
                ((if exists_path (fs w) q then ''Input path is not a file: ''
                  else ''Input file not found: '') @ q)), w))"
proof -
  from assms have "\<exists>p\<in>set ps. \<not> isfile (fs w) p"
    by (auto dest: isfile_exists)
  then obtain pre q post where
    ps: "ps = pre @ q # post" and q: "\<not> isfile (fs w) q" and
    pre: "\<forall>x\<in>set pre. \<not> \<not> isfile (fs w) x"
    by (auto dest!: split_list_first_prop)
  from pre have pre': "\<forall>x\<in>set pre. isfile (fs w) x"
    by simp
  have ne: "ps \<noteq> []"
    by (simp add: ps)
  have "\<forall>env :: 'p env. merge_pdfs env w (PyList (map PyStr ps)) out
           = (Inl (FileNotFoundError
                ((if exists_path (fs w) q then ''Input path is not a file: ''
                  else ''Input file not found: '') @ q)), w)"
    using check_exist_first [OF pre' q, of post]
    by (simp add: merge_pdfs_def validate_strs [OF ne] ps [symmetric] del: validate.simps)
  with ps pre' q show ?thesis
    by blast
qed

theorem missing_input_rejected_witness:
  "\<not> exists_path (fs toy_world) ''missing.pdf''
   \<and> (\<forall>env :: string env.
         merge_pdfs env toy_world (PyList [PyStr ''a.pdf'', PyStr ''missing.pdf'']) ''out.pdf''
           = (Inl (FileNotFoundError ''Input file not found: missing.pdf''), toy_world))"
proof -
  let ?ps = "[''a.pdf'', ''missing.pdf'']"
  have m: "\<not> exists_path (fs toy_world) ''missing.pdf''"
    by (simp add: exists_path_def toy_fs_def)
  then have x: "\<exists>p\<in>set ?ps. \<not> exists_path (fs toy_world) p"
    by simp
  from missing_input_rejected [OF x, of "''out.pdf''", where 'p = string] obtain pre q post where
    ps: "?ps = pre @ q # post" and pre: "\<forall>x\<in>set pre. isfile (fs toy_world) x"
    and q: "\<not> isfile (fs toy_world) q"
    and r: "\<forall>env :: string env. merge_pdfs env toy_world (PyList (map PyStr ?ps)) ''out.pdf''
           = (Inl (FileNotFoundError
                ((if exists_path (fs toy_world) q then ''Input path is not a file: ''
                  else ''Input file not found: '') @ q)), toy_world)"
    by blast
  from ps q have "q = ''missing.pdf''"
    by (auto simp: Cons_eq_append_conv toy_isfile)
  with r m show ?thesis
    by simp
qed




text \<open>
  C4 as stated does not hold. It says that a failed write never leaves a truncated
  output file, the bytes going to a temporary location first. \<^verbatim>\<open>merge_pdfs\<close> has no
  temporary file: line 91 opens the destination itself for writing, which empties it,
  and line 92 writes into it. On the small world with a disk that is full after three
  bytes, the document at the destination is replaced by the first three bytes of the new
  one.
\<close>

theorem truncated_output_counterexample:
  "fs toy_world ''out.pdf'' = Some (File ''%PDFold1;old2;old3;'')
   \<and> read_input full_disk_env (fs toy_world) ''a.pdf'' = Inr [''a1'', ''a2'']
   \<and> PdfWriter_write full_disk_env [''a1'', ''a2''] = ''%PDFa1;a2;''
   \<and> fst (merge_pdfs full_disk_env toy_world (PyList [PyStr ''a.pdf'']) ''out.pdf'')
       = Inl (IOError ''[Errno 28] No space left on device'')
   \<and> fs (snd (merge_pdfs full_disk_env toy_world (PyList [PyStr ''a.pdf'']) ''out.pdf''))
        ''out.pdf'' = Some (File ''%PD'')"
  by (simp add: merge_pdfs_def try_body_def write_output_def write_file_def
      make_output_dir_def read_input_def say_def dirname_def basename_def exists_path_def
      isfile_def add_pages_def full_disk_env_def toy_env_def toy_world_def toy_fs_def
      toy_reader_def toy_writer_def)

text \<open>
  C4, amended. The output is written in place at the destination: there is no temporary
  file and no move into place. Once every input has been read, a failure of the output
  has one of three forms.
  \<^item> \<^verbatim>\<open>os.makedirs\<close> fails: its exception is raised, as the \<^verbatim>\<open>IOError\<close> of line 88 when it
    is an \<^verbatim>\<open>OSError\<close> and as it is otherwise, and \<^verbatim>\<open>merge_pdfs\<close> writes nothing: the file
    system is the one \<^verbatim>\<open>os.makedirs\<close> left, with the directories it had created.
  \<^item> Opening the destination fails: its exception is raised and \<^verbatim>\<open>merge_pdfs\<close> has written
    nothing: the file system is the one lines 82 to 88 left, which is the file system as
    it was when the parent directory was there or none was named.
  \<^item> The write fails after \<open>k\<close> bytes: its exception is raised and the destination is left
    holding just the first \<open>k\<close> bytes of the output.
\<close>

theorem write_failure_effects:
  assumes "ps \<noteq> []" and "\<forall>p\<in>set ps. read_input env (fs w) p = Inr (pg p)"
  shows "(\<forall>e. dir_fault env (fs w) out = Some e \<longrightarrow>
            fst (merge_pdfs env w (PyList (map PyStr ps)) out)
              = Inl (except_OSError (dirname out) e)
            \<and> fs (snd (merge_pdfs env w (PyList (map PyStr ps)) out))
                = with_output_dir env (fs w) out)
    \<and> (\<forall>e. dir_fault env (fs w) out = None \<and> open_wb_fault env out = Some e \<longrightarrow>
            fst (merge_pdfs env w (PyList (map PyStr ps)) out) = Inl e
            \<and> fs (snd (merge_pdfs env w (PyList (map PyStr ps)) out))
                = with_output_dir env (fs w) out)
    \<and> (\<forall>e. \<not> needs_dir (fs w) out \<and> open_wb_fault env out = Some e \<longrightarrow>
            fst (merge_pdfs env w (PyList (map PyStr ps)) out) = Inl e
            \<and> fs (snd (merge_pdfs env w (PyList (map PyStr ps)) out)) = fs w)
    \<and> (\<forall>k e. dir_fault env (fs w) out = None \<and> open_wb_fault env out = None
          \<and> write_fault env out = Some (k, e) \<longrightarrow>
            fst (merge_pdfs env w (PyList (map PyStr ps)) out) = Inl e
            \<and> fs (snd (merge_pdfs env w (PyList (map PyStr ps)) out))
                = (with_output_dir env (fs w) out)
                    (out \<mapsto> File (take k (PdfWriter_write env (concat (map pg ps))))))"
proof -
  let ?r = "merge_pdfs env w (PyList (map PyStr ps)) out"
  let ?w = "after_reads w ps out pg"
  note m = merge_pdfs_reads_ok [OF assms(1,2), of out]
  have 1: "fst ?r = Inl (except_OSError (dirname out) e)
      \<and> fs (snd ?r) = with_output_dir env (fs w) out"
    if "dir_fault env (fs w) out = Some e" for e
  proof -
    from that have "dir_fault env (fs ?w) out = Some e"
      by simp
    from write_output_dir_fault [OF this] show ?thesis
      by (simp only: m fst_except_clauses fs_except_clauses) simp
  qed
  have 2: "fst ?r = Inl e \<and> fs (snd ?r) = with_output_dir env (fs w) out"
    if "dir_fault env (fs w) out = None \<and> open_wb_fault env out = Some e" for e
  proof -
    from that have d: "dir_fault env (fs ?w) out = None" and o: "open_wb_fault env out = Some e"
      by simp_all
    from write_output_open_fault [OF d o] show ?thesis
      by (simp only: m fst_except_clauses fs_except_clauses) simp
  qed
  have 3: "fst ?r = Inl e \<and> fs (snd ?r) = fs w"
    if "\<not> needs_dir (fs w) out \<and> open_wb_fault env out = Some e" for e
  proof -
    from that have "dir_fault env (fs w) out = None" and "with_output_dir env (fs w) out = fs w"
      by (simp_all add: dir_fault_def with_output_dir_def)
    with 2 [of e] that show ?thesis
      by simp
  qed
  have 4: "fst ?r = Inl e
      \<and> fs (snd ?r) = (with_output_dir env (fs w) out)
          (out \<mapsto> File (take k (PdfWriter_write env (concat (map pg ps)))))"
    if "dir_fault env (fs w) out = None \<and> open_wb_fault env out = None
          \<and> write_fault env out = Some (k, e)" for k e
  proof -
    from that have d: "dir_fault env (fs ?w) out = None" and o: "open_wb_fault env out = None"
      and f: "write_fault env out = Some (k, e)"
      by simp_all
    from write_output_write_fault [OF d o f] show ?thesis
      by (simp only: m fst_except_clauses fs_except_clauses) simp
  qed
  from 1 2 3 4 show ?thesis
    by blast
qed

theorem write_failure_effects_witness:
  "read_input toy_env (fs toy_world) ''a.pdf'' = Inr [''a1'', ''a2'']
   \<and> dir_fault toy_env (fs toy_world) ''a.pdf/sub/out.pdf''
       = Some (IOError (''[Errno 20] Not a directory: '' @ quoted ''a.pdf/sub''))
   \<and> fst (merge_pdfs toy_env toy_world (PyList [PyStr ''a.pdf'']) ''a.pdf/sub/out.pdf'')
       = Inl (IOError (''Error creating output directory a.pdf/sub: ''
           @ ''[Errno 20] Not a directory: '' @ quoted ''a.pdf/sub''))
   \<and> fs (snd (merge_pdfs toy_env toy_world (PyList [PyStr ''a.pdf'']) ''a.pdf/sub/out.pdf''))
       = fs toy_world
   \<and> dir_fault toy_env (fs toy_world) (''p/a'' @ [CHR 0x00] @ ''b/out.pdf'')
       = Some (ValueError ''embedded null byte'')
   \<and> fst (merge_pdfs toy_env toy_world (PyList [PyStr ''a.pdf''])
         (''p/a'' @ [CHR 0x00] @ ''b/out.pdf''))
       = Inl (ValueError ''embedded null byte'')
   \<and> fs (snd (merge_pdfs toy_env toy_world (PyList [PyStr ''a.pdf''])
         (''p/a'' @ [CHR 0x00] @ ''b/out.pdf'')))
       = (fs toy_world)(''p'' \<mapsto> Dir)
   \<and> read_input locked_env (fs toy_world) ''a.pdf'' = Inr [''a1'', ''a2'']
   \<and> \<not> needs_dir (fs toy_world) ''out.pdf''
   \<and> dir_fault locked_env (fs toy_world) ''out.pdf'' = None
   \<and> open_wb_fault locked_env ''out.pdf'' = Some (IOError ''[Errno 13] Permission denied'')
   \<and> fst (merge_pdfs locked_env toy_world (PyList [PyStr ''a.pdf'']) ''out.pdf'')
       = Inl (IOError ''[Errno 13] Permission denied'')
   \<and> fs (snd (merge_pdfs locked_env toy_world (PyList [PyStr ''a.pdf'']) ''out.pdf''))
       = fs toy_world
   \<and> read_input full_disk_env (fs toy_world) ''a.pdf'' = Inr [''a1'', ''a2'']
   \<and> dir_fault full_disk_env (fs toy_world) ''out.pdf'' = None
   \<and> open_wb_fault full_disk_env ''out.pdf'' = None
   \<and> write_fault full_disk_env ''out.pdf''
       = Some (3, IOError ''[Errno 28] No space left on device'')
   \<and> fst (merge_pdfs full_disk_env toy_world (PyList [PyStr ''a.pdf'']) ''out.pdf'')
       = Inl (IOError ''[Errno 28] No space left on device'')
   \<and> fs (snd (merge_pdfs full_disk_env toy_world (PyList [PyStr ''a.pdf'']) ''out.pdf''))
        ''out.pdf'' = Some (File ''%PD'')"
proof -
  let ?pg = "\<lambda>p :: path. [''a1'', ''a2'']"
  let ?ko = "''a.pdf/sub/out.pdf''" and ?nul = "''p/a'' @ [CHR 0x00] @ ''b/out.pdf''"
  have ne: "[''a.pdf''] \<noteq> []"
    by simp
  have r0: "\<forall>p\<in>set [''a.pdf'']. read_input toy_env (fs toy_world) p = Inr (?pg p)"
    and r2: "\<forall>p\<in>set [''a.pdf'']. read_input locked_env (fs toy_world) p = Inr (?pg p)"
    and r3: "\<forall>p\<in>set [''a.pdf'']. read_input full_disk_env (fs toy_world) p = Inr (?pg p)"
    by (simp_all add: toy_read_a other_read_a)
  have d1: "dir_fault toy_env (fs toy_world) ?ko
      = Some (IOError (''[Errno 20] Not a directory: '' @ quoted ''a.pdf/sub''))"
    and w1: "with_output_dir toy_env (fs toy_world) ?ko = fs toy_world"
    and d1': "dir_fault toy_env (fs toy_world) ?nul = Some (ValueError ''embedded null byte'')"
    and w1': "with_output_dir toy_env (fs toy_world) ?nul = (fs toy_world)(''p'' \<mapsto> Dir)"
    using toy_dirname toy_missing toy_makedirs_below_file toy_makedirs_deep_nul
    by (simp_all add: dir_fault_def with_output_dir_def needs_dir_def)
  have n: "\<not> needs_dir (fs toy_world) ''out.pdf''"
    and d2: "dir_fault locked_env (fs toy_world) ''out.pdf'' = None"
    and d3: "dir_fault full_disk_env (fs toy_world) ''out.pdf'' = None"
    and w3: "with_output_dir full_disk_env (fs toy_world) ''out.pdf'' = fs toy_world"
    using toy_dirname by (simp_all add: dir_fault_def with_output_dir_def needs_dir_def)
  have o2: "open_wb_fault locked_env ''out.pdf'' = Some (IOError ''[Errno 13] Permission denied'')"
    by (simp add: locked_env_def toy_env_def)
  have o3: "open_wb_fault full_disk_env ''out.pdf'' = None"
    and f3: "write_fault full_disk_env ''out.pdf''
      = Some (3, IOError ''[Errno 28] No space left on device'')"
    by (simp_all add: full_disk_env_def toy_env_def)
  have wr: "take 3 (PdfWriter_write full_disk_env [''a1'', ''a2'']) = ''%PD''"
    by (simp add: full_disk_env_def toy_env_def toy_writer_def)
  have dn: "dirname ?ko = ''a.pdf/sub''"
    using toy_dirname by simp
  note t1 = write_failure_effects [OF ne r0, of ?ko]
  note t1' = write_failure_effects [OF ne r0, of ?nul]
  note t2 = write_failure_effects [OF ne r2, of "''out.pdf''"]
  note t3 = write_failure_effects [OF ne r3, of "''out.pdf''"]
  from t1 d1 have
    "fst (merge_pdfs toy_env toy_world (PyList (map PyStr [''a.pdf''])) ?ko)
       = Inl (except_OSError (dirname ?ko)
           (IOError (''[Errno 20] Not a directory: '' @ quoted ''a.pdf/sub'')))"
    "fs (snd (merge_pdfs toy_env toy_world (PyList (map PyStr [''a.pdf''])) ?ko))
       = with_output_dir toy_env (fs toy_world) ?ko"
    by blast+
  moreover from t1' d1' have
    "fst (merge_pdfs toy_env toy_world (PyList (map PyStr [''a.pdf''])) ?nul)
       = Inl (except_OSError (dirname ?nul) (ValueError ''embedded null byte''))"
    "fs (snd (merge_pdfs toy_env toy_world (PyList (map PyStr [''a.pdf''])) ?nul))
       = with_output_dir toy_env (fs toy_world) ?nul"
    by blast+
  moreover from t2 n o2 have
    "fst (merge_pdfs locked_env toy_world (PyList (map PyStr [''a.pdf''])) ''out.pdf'')
       = Inl (IOError ''[Errno 13] Permission denied'')"
    "fs (snd (merge_pdfs locked_env toy_world (PyList (map PyStr [''a.pdf''])) ''out.pdf''))
       = fs toy_world"
    by blast+
  moreover from t3 d3 o3 f3 have
    "fst (merge_pdfs full_disk_env toy_world (PyList (map PyStr [''a.pdf''])) ''out.pdf'')
       = Inl (IOError ''[Errno 28] No space left on device'')"
    "fs (snd (merge_pdfs full_disk_env toy_world (PyList (map PyStr [''a.pdf''])) ''out.pdf''))
       = (with_output_dir full_disk_env (fs toy_world) ''out.pdf'')
           (''out.pdf'' \<mapsto> File (take 3 (PdfWriter_write full_disk_env
              (concat (map ?pg [''a.pdf''])))))"
    by blast+
  ultimately show ?thesis
    using d1 w1 d1' w1' n d2 d3 w3 o2 o3 f3 wr dn toy_read_a other_read_a
    by (simp add: except_OSError_def)
qed

end
